theory Spec2Isabelle
  imports Main
begin

section \<open>JavaScript values\<close>

text \<open>
  The client is written in JavaScript and keeps whatever the content API answers, without
  decoding it. A value is therefore modelled dynamically: the JSON values, and
  \<open>undefined\<close> for a property that an object does not have. Numbers are never computed
  with in the code modelled here and are kept as integers. An object is its list of
  properties in order; a property is looked up by its first entry.
\<close>

datatype jsval =
    JUndefined
  | JNull
  | JBool bool
  | JNum int
  | JStr string
  | JArr "jsval list"
  | JObj "(string \<times> jsval) list"

datatype js_error =
    TypeError string
  | SyntaxError
  | Error string

text \<open>The truth value JavaScript gives a value in \<open>x && ...\<close>.\<close>

fun truthy :: "jsval \<Rightarrow> bool" where
  "truthy JUndefined = False"
| "truthy JNull = False"
| "truthy (JBool b) = b"
| "truthy (JNum n) = (n \<noteq> 0)"
| "truthy (JStr s) = (s \<noteq> [])"
| "truthy (JArr xs) = True"
| "truthy (JObj kvs) = True"

fun is_object :: "jsval \<Rightarrow> bool" where
  "is_object (JObj kvs) = True"
| "is_object v = False"

text \<open>
  The property read \<open>project.category\<close>: a TypeError on \<open>null\<close> and \<open>undefined\<close>,
  the property's value on an object that has it, \<open>undefined\<close> on every other value
  (numbers, booleans, strings and arrays have no property of that name).
\<close>

fun get_category :: "jsval \<Rightarrow> js_error + jsval" where
  "get_category JUndefined = Inl (TypeError ''Cannot read properties of undefined'')"
| "get_category JNull = Inl (TypeError ''Cannot read properties of null'')"
| "get_category (JObj kvs) =
     Inr (case map_of kvs ''category'' of Some v \<Rightarrow> v | None \<Rightarrow> JUndefined)"
| "get_category v = Inr JUndefined"

text \<open>
  \<open>Array.prototype.filter\<close> with a callback that may throw: the elements the callback
  accepts, in order, or the first exception.
\<close>

fun js_filter :: "('a \<Rightarrow> js_error + bool) \<Rightarrow> 'a list \<Rightarrow> js_error + 'a list" where
  "js_filter p [] = Inr []"
| "js_filter p (x # xs) =
     (case p x of
        Inl e \<Rightarrow> Inl e
      | Inr b \<Rightarrow>
          (case js_filter p xs of
             Inl e \<Rightarrow> Inl e
           | Inr ys \<Rightarrow> Inr (if b then x # ys else ys)))"

text \<open>
  The spread \<open>[...x]\<close>: the elements of an array, the characters of a string, a
  TypeError on every value that is not iterable.
\<close>

fun spread :: "jsval \<Rightarrow> js_error + jsval list" where
  "spread (JArr xs) = Inr xs"
| "spread (JStr s) = Inr (map (\<lambda>c. JStr [c]) s)"
| "spread v = Inl (TypeError ''not iterable'')"

section \<open>The filter projector (App.js, filteredProjects)\<close>

text \<open>
  \<^verbatim>\<open>
  const filteredProjects = projectFilter === 'All'
    ? projects
    : projects.filter(project => project.category === projectFilter);
  \<close>
  The filter is a string (the state starts at \<open>'All'\<close>); \<open>===\<close> between a value and a
  string holds exactly when the value is that string. \<open>projects.filter\<close> exists on arrays
  only.
\<close>

definition category_is :: "string \<Rightarrow> jsval \<Rightarrow> js_error + bool" where
  "category_is f project =
     (case get_category project of
        Inl e \<Rightarrow> Inl e
      | Inr c \<Rightarrow> Inr (c = JStr f))"

definition filteredProjects :: "jsval \<Rightarrow> string \<Rightarrow> js_error + jsval" where
  "filteredProjects ps f =
     (if f = ''All'' then Inr ps
      else
        (case ps of
           JArr xs \<Rightarrow>
             (case js_filter (category_is f) xs of
                Inl e \<Rightarrow> Inl e
              | Inr ys \<Rightarrow> Inr (JArr ys))
         | _ \<Rightarrow> Inl (TypeError ''projects.filter is not a function'')))"

text \<open>A project's category, read as the code reads it once the project is an object.\<close>

definition has_category :: "string \<Rightarrow> jsval \<Rightarrow> bool" where
  "has_category f project = (get_category project = Inr (JStr f))"

section \<open>The state of the public client (App.js, App)\<close>

record contact_form =
  name :: string
  email :: string
  message :: string

record app_state =
  activeSection :: string
  selectedProject :: jsval
  selectedBlogPost :: jsval
  projects :: jsval
  blogPosts :: jsval
  testimonials :: jsval
  settings :: jsval
  projectFilter :: string
  projectCategories :: jsval
  contactForm :: contact_form
  isSubmitting :: bool
  showAdmin :: bool
  isMenuOpen :: bool

text \<open>The arguments of the \<open>useState\<close> calls at the head of \<open>App\<close>.\<close>

definition empty_form :: contact_form where
  "empty_form = \<lparr>name = [], email = [], message = []\<rparr>"

definition App_initial :: app_state where
  "App_initial =
     \<lparr>activeSection = ''home'',
      selectedProject = JNull,
      selectedBlogPost = JNull,
      projects = JArr [],
      blogPosts = JArr [],
      testimonials = JArr [],
      settings = JObj [],
      projectFilter = ''All'',
      projectCategories = JArr [],
      contactForm = empty_form,
      isSubmitting = False,
      showAdmin = False,
      isMenuOpen = False\<rparr>"

subsection \<open>Section selection and rendering\<close>

definition setActiveSection :: "string \<Rightarrow> app_state \<Rightarrow> app_state" where
  "setActiveSection section s = s\<lparr>activeSection := section\<rparr>"

datatype view =
    HeroSection
  | AboutSection
  | SkillsSection
  | PortfolioSection
  | TestimonialsSection
  | BlogSection
  | ContactSection

text \<open>The \<open>switch\<close> of \<open>renderSection\<close>, with its default.\<close>

definition renderSection :: "app_state \<Rightarrow> view" where
  "renderSection s =
     (if activeSection s = ''home'' then HeroSection
      else if activeSection s = ''about'' then AboutSection
      else if activeSection s = ''portfolio'' then PortfolioSection
      else if activeSection s = ''blog'' then BlogSection
      else if activeSection s = ''skills'' then SkillsSection
      else if activeSection s = ''contact'' then ContactSection
      else HeroSection)"

text \<open>
  The children of \<open><main>\<close>: \<open>{renderSection()}\<close>, then the fragment guarded by
  \<open>activeSection === 'home'\<close>.
\<close>

definition App_main :: "app_state \<Rightarrow> view list" where
  "App_main s =
     renderSection s #
     (if activeSection s = ''home''
      then [AboutSection, SkillsSection, PortfolioSection, TestimonialsSection,
            BlogSection, ContactSection]
      else [])"

subsection \<open>The two overlays\<close>

definition setSelectedProject :: "jsval \<Rightarrow> app_state \<Rightarrow> app_state" where
  "setSelectedProject project s = s\<lparr>selectedProject := project\<rparr>"

definition setSelectedBlogPost :: "jsval \<Rightarrow> app_state \<Rightarrow> app_state" where
  "setSelectedBlogPost post s = s\<lparr>selectedBlogPost := post\<rparr>"

text \<open>
  The handlers passed as \<open>onClose\<close>: \<open>() => setSelectedProject(null)\<close> and
  \<open>() => setSelectedBlogPost(null)\<close>.
\<close>

definition ProjectModal_onClose :: "app_state \<Rightarrow> app_state" where
  "ProjectModal_onClose s = setSelectedProject JNull s"

definition BlogModal_onClose :: "app_state \<Rightarrow> app_state" where
  "BlogModal_onClose s = setSelectedBlogPost JNull s"

text \<open>
  \<open>ProjectModal\<close> renders its overlay under \<open>{project && (...)}\<close>, \<open>BlogModal\<close> under
  \<open>{post && (...)}\<close>. Visibility is what the component renders; the exit animation that
  \<open>AnimatePresence\<close> plays on an element no longer rendered is not modelled.
\<close>

definition ProjectModal_visible :: "app_state \<Rightarrow> bool" where
  "ProjectModal_visible s = truthy (selectedProject s)"

definition BlogModal_visible :: "app_state \<Rightarrow> bool" where
  "BlogModal_visible s = truthy (selectedBlogPost s)"

text \<open>A selection slot holds \<open>null\<close> or an entity, which is an object.\<close>

definition slot_ok :: "jsval \<Rightarrow> bool" where
  "slot_ok v = (v = JNull \<or> is_object v)"

section \<open>The content API as the client sees it\<close>

text \<open>
  A request is its method, its path below \<open>BACKEND_URL\<close> and the value it sends as its
  JSON body, if any. \<open>fetch\<close> rejects on a transport failure and resolves with a response
  on every HTTP status; \<open>response.ok\<close> is the status being in 200..299;
  \<open>response.json()\<close> rejects when the body is not JSON (\<open>json_body\<close> is then
  \<open>None\<close>). The outcome of every request is given by the environment, a function from
  requests to outcomes.
\<close>

datatype http_method = GET | PUT | POST | DELETE

datatype request = Request http_method string "jsval option"

record response =
  status :: nat
  json_body :: "jsval option"

datatype fetch_result = Rejected | Resolved response

type_synonym network = "request \<Rightarrow> fetch_result"

definition ok :: "response \<Rightarrow> bool" where
  "ok r = (200 \<le> status r \<and> status r \<le> 299)"

fun fetched :: "fetch_result \<Rightarrow> js_error + response" where
  "fetched Rejected = Inl (TypeError ''Failed to fetch'')"
| "fetched (Resolved r) = Inr r"

definition json :: "response \<Rightarrow> js_error + jsval" where
  "json r = (case json_body r of None \<Rightarrow> Inl SyntaxError | Some v \<Rightarrow> Inr v)"

text \<open>\<open>await p\<close> followed by the rest of the \<open>try\<close> block: a rejection leaves the block.\<close>

definition await :: "js_error + 'a \<Rightarrow> ('a \<Rightarrow> js_error + 'b) \<Rightarrow> js_error + 'b" where
  "await p k = (case p of Inl e \<Rightarrow> Inl e | Inr x \<Rightarrow> k x)"

text \<open>
  What a handler does besides writing state, in order: the requests it issues, what it
  logs, the dialogs it opens and the timers it starts. \<open>SetTimeout_setMessage m d\<close> is
  \<open>setTimeout(() => setMessage(m), d)\<close>; the state a handler returns is the state before
  any timer fires.
\<close>

datatype effect =
    Fetch request
  | ConsoleError string
  | Alert string
  | Confirm string
  | SetTimeout_setMessage string nat

fun is_alert :: "effect \<Rightarrow> bool" where
  "is_alert (Alert m) = True"
| "is_alert e = False"

text \<open>
  The two kinds of failure of a request: the transport fails, or the response has a status
  outside 200..299. A read is unreadable when \<open>fetch\<close> or \<open>json()\<close> rejects.
\<close>

fun transport_failure :: "fetch_result \<Rightarrow> bool" where
  "transport_failure Rejected = True"
| "transport_failure (Resolved r) = False"

fun http_failure :: "fetch_result \<Rightarrow> bool" where
  "http_failure Rejected = False"
| "http_failure (Resolved r) = (\<not> ok r)"

definition request_failed :: "fetch_result \<Rightarrow> bool" where
  "request_failed x = (transport_failure x \<or> http_failure x)"

fun unreadable :: "fetch_result \<Rightarrow> bool" where
  "unreadable Rejected = True"
| "unreadable (Resolved r) = (json_body r = None)"

section \<open>The initial load of the public client (App.js, fetchData)\<close>

definition GET_projects :: request where
  "GET_projects = Request GET ''/api/projects'' None"

definition GET_blog :: request where
  "GET_blog = Request GET ''/api/blog'' None"

definition GET_testimonials :: request where
  "GET_testimonials = Request GET ''/api/testimonials'' None"

definition GET_settings :: request where
  "GET_settings = Request GET ''/api/settings'' None"

definition GET_categories :: request where
  "GET_categories = Request GET ''/api/projects/categories'' None"

text \<open>
  Lines 28 to 40: \<open>Promise.all\<close> over the five \<open>fetch\<close> calls, then the five
  \<open>json()\<close> calls. No state is written here, and no status is looked at.
\<close>

definition App_fetchData_read ::
  "network \<Rightarrow> js_error + (jsval \<times> jsval \<times> jsval \<times> jsval \<times> jsval)" where
  "App_fetchData_read net =
     await (fetched (net GET_projects)) (\<lambda>projectsRes.
     await (fetched (net GET_blog)) (\<lambda>blogRes.
     await (fetched (net GET_testimonials)) (\<lambda>testimonialsRes.
     await (fetched (net GET_settings)) (\<lambda>settingsRes.
     await (fetched (net GET_categories)) (\<lambda>categoriesRes.
     await (json projectsRes) (\<lambda>projectsData.
     await (json blogRes) (\<lambda>blogData.
     await (json testimonialsRes) (\<lambda>testimonialsData.
     await (json settingsRes) (\<lambda>settingsData.
     await (json categoriesRes) (\<lambda>categoriesData.
       Inr (projectsData, blogData, testimonialsData, settingsData,
            categoriesData)))))))))))"

definition App_fetchData_issued :: "effect list" where
  "App_fetchData_issued =
     [Fetch GET_projects, Fetch GET_blog, Fetch GET_testimonials, Fetch GET_settings,
      Fetch GET_categories]"

text \<open>
  Lines 42 to 49: the four setters, then \<open>setProjectCategories(['All', ...categoriesData])\<close>,
  whose spread is evaluated after the four setters have run; the \<open>catch\<close> logs.
\<close>

definition App_fetchData :: "network \<Rightarrow> app_state \<Rightarrow> app_state \<times> effect list" where
  "App_fetchData net s =
     (case App_fetchData_read net of
        Inl e \<Rightarrow> (s, App_fetchData_issued @ [ConsoleError ''Error fetching data:''])
      | Inr (projectsData, blogData, testimonialsData, settingsData, categoriesData) \<Rightarrow>
          (let s' = s\<lparr>projects := projectsData, blogPosts := blogData,
                       testimonials := testimonialsData, settings := settingsData\<rparr>
           in case spread categoriesData of
                Inl e \<Rightarrow> (s', App_fetchData_issued @ [ConsoleError ''Error fetching data:''])
              | Inr cs \<Rightarrow>
                  (s'\<lparr>projectCategories := JArr (JStr ''All'' # cs)\<rparr>,
                   App_fetchData_issued)))"

subsection \<open>The filter options against the project collection\<close>





section \<open>The contact form (App.js, handleContactSubmit)\<close>

text \<open>
  \<open>JSON.stringify(contactForm)\<close>: the form as the object sent. The form is written by
  the three inputs and by \<open>handleContactSubmit\<close> only, so its fields are strings. The
  request's headers and \<open>e.preventDefault()\<close> are left out.
\<close>

definition form_json :: "contact_form \<Rightarrow> jsval" where
  "form_json c =
     JObj [(''name'', JStr (name c)), (''email'', JStr (email c)),
           (''message'', JStr (message c))]"

definition POST_contact :: "contact_form \<Rightarrow> request" where
  "POST_contact c = Request POST ''/api/contact'' (Some (form_json c))"

definition handleContactSubmit :: "network \<Rightarrow> app_state \<Rightarrow> app_state \<times> effect list" where
  "handleContactSubmit net s =
     (let s1 = s\<lparr>isSubmitting := True\<rparr>;
          req = POST_contact (contactForm s)
      in case await (fetched (net req))
                (\<lambda>response. if ok response then Inr ()
                            else Inl (Error ''Failed to send message'')) of
           Inr u \<Rightarrow>
             (s1\<lparr>contactForm := empty_form, isSubmitting := False\<rparr>,
              [Fetch req, Alert ''Message sent successfully!''])
         | Inl e \<Rightarrow>
             (s1\<lparr>isSubmitting := False\<rparr>,
              [Fetch req, ConsoleError ''Error sending message:'',
               Alert ''Failed to send message. Please try again.'']))"

section \<open>The admin console (AdminPanel)\<close>

text \<open>
  \<open>AdminPanel\<close> is a component of its own, with its own state; its slots carry the
  source's names with the prefix \<open>admin\<close> where the public client has a slot of that name.
\<close>

record admin_state =
  activeTab :: string
  adminSettings :: jsval
  adminProjects :: jsval
  adminBlogPosts :: jsval
  adminTestimonials :: jsval
  loading :: bool
  adminMessage :: string

definition AdminPanel_initial :: admin_state where
  "AdminPanel_initial =
     \<lparr>activeTab = ''settings'',
      adminSettings = JObj [],
      adminProjects = JArr [],
      adminBlogPosts = JArr [],
      adminTestimonials = JArr [],
      loading = False,
      adminMessage = []\<rparr>"

subsection \<open>fetchData\<close>

text \<open>
  \<open>fetchData\<close> runs to its first \<open>await\<close> when it is called (\<open>setLoading(true)\<close> and the
  four \<open>fetch\<close> calls), and finishes when the reads have settled. \<open>deleteItem\<close> calls it
  without awaiting it, so the two halves are separate definitions.
\<close>

definition AdminPanel_fetchData_start :: "admin_state \<Rightarrow> admin_state \<times> effect list" where
  "AdminPanel_fetchData_start s =
     (s\<lparr>loading := True\<rparr>,
      [Fetch GET_settings, Fetch GET_projects, Fetch GET_blog, Fetch GET_testimonials])"

definition AdminPanel_fetchData_read ::
  "network \<Rightarrow> js_error + (jsval \<times> jsval \<times> jsval \<times> jsval)" where
  "AdminPanel_fetchData_read net =
     await (fetched (net GET_settings)) (\<lambda>settingsRes.
     await (fetched (net GET_projects)) (\<lambda>projectsRes.
     await (fetched (net GET_blog)) (\<lambda>blogRes.
     await (fetched (net GET_testimonials)) (\<lambda>testimonialsRes.
     await (json settingsRes) (\<lambda>settingsData.
     await (json projectsRes) (\<lambda>projectsData.
     await (json blogRes) (\<lambda>blogData.
     await (json testimonialsRes) (\<lambda>testimonialsData.
       Inr (settingsData, projectsData, blogData, testimonialsData)))))))))"

definition AdminPanel_fetchData_settle ::
  "network \<Rightarrow> admin_state \<Rightarrow> admin_state \<times> effect list" where
  "AdminPanel_fetchData_settle net s =
     (case AdminPanel_fetchData_read net of
        Inr (settingsData, projectsData, blogData, testimonialsData) \<Rightarrow>
          (s\<lparr>adminSettings := settingsData, adminProjects := projectsData,
             adminBlogPosts := blogData, adminTestimonials := testimonialsData,
             loading := False\<rparr>, [])
      | Inl e \<Rightarrow>
          (s\<lparr>adminMessage := ''Error loading data'', loading := False\<rparr>,
           [ConsoleError ''Error fetching data:'']))"

definition AdminPanel_fetchData :: "network \<Rightarrow> admin_state \<Rightarrow> admin_state \<times> effect list" where
  "AdminPanel_fetchData net s =
     (let (s1, t1) = AdminPanel_fetchData_start s;
          (s2, t2) = AdminPanel_fetchData_settle net s1
      in (s2, t1 @ t2))"

subsection \<open>updateSettings\<close>

definition PUT_settings :: "jsval \<Rightarrow> request" where
  "PUT_settings updatedSettings = Request PUT ''/api/settings'' (Some updatedSettings)"

definition updateSettings ::
  "network \<Rightarrow> jsval \<Rightarrow> admin_state \<Rightarrow> admin_state \<times> effect list" where
  "updateSettings net updatedSettings s =
     (let s1 = s\<lparr>loading := True\<rparr>;
          req = PUT_settings updatedSettings
      in case await (fetched (net req))
                (\<lambda>response. if ok response then Inr ()
                            else Inl (Error ''Failed to update settings'')) of
           Inr u \<Rightarrow>
             (s1\<lparr>adminMessage := ''Settings updated successfully!'',
                 adminSettings := updatedSettings, loading := False\<rparr>,
              [Fetch req, SetTimeout_setMessage [] 3000])
         | Inl e \<Rightarrow>
             (s1\<lparr>adminMessage := ''Error updating settings'', loading := False\<rparr>,
              [Fetch req, ConsoleError ''Error updating settings:'']))"

subsection \<open>deleteItem\<close>

text \<open>
  The item's kind and id are the strings the path is built from; \<open>confirmed\<close> is what
  \<open>window.confirm\<close> returns. On a 2xx answer the message is set, the timer started and
  \<open>fetchData()\<close> called; the \<open>finally\<close> block runs as soon as that call returns, before
  the reads settle.
\<close>

definition confirm_text :: "string \<Rightarrow> string" where
  "confirm_text kind = ''Are you sure you want to delete this '' @ kind @ ''?''"

definition DELETE_item :: "string \<Rightarrow> string \<Rightarrow> request" where
  "DELETE_item kind ident = Request DELETE (''/api/'' @ kind @ ''/'' @ ident) None"

definition deleteItem ::
  "network \<Rightarrow> bool \<Rightarrow> string \<Rightarrow> string \<Rightarrow> admin_state \<Rightarrow> admin_state \<times> effect list" where
  "deleteItem net confirmed kind ident s =
     (if \<not> confirmed then (s, [Confirm (confirm_text kind)])
      else
        (let s1 = s\<lparr>loading := True\<rparr>;
             req = DELETE_item kind ident
         in case await (fetched (net req))
                   (\<lambda>response. if ok response then Inr ()
                               else Inl (Error (''Failed to delete '' @ kind))) of
              Inr u \<Rightarrow>
                (let s2 = s1\<lparr>adminMessage := kind @ '' deleted successfully!''\<rparr>;
                     (s3, t3) = AdminPanel_fetchData_start s2;
                     s4 = s3\<lparr>loading := False\<rparr>;
                     (s5, t5) = AdminPanel_fetchData_settle net s4
                 in (s5,
                     [Confirm (confirm_text kind), Fetch req, SetTimeout_setMessage [] 3000]
                     @ t3 @ t5))
            | Inl e \<Rightarrow>
                (s1\<lparr>adminMessage := ''Error deleting '' @ kind, loading := False\<rparr>,
                 [Confirm (confirm_text kind), Fetch req,
                  ConsoleError (''Error deleting '' @ kind @ '':'')])))"

subsection \<open>The message banner\<close>

text \<open>The panel renders \<open>{message && (<div ...>{message}</div>)}\<close>.\<close>

definition AdminPanel_banner :: "admin_state \<Rightarrow> string option" where
  "AdminPanel_banner s = (if adminMessage s \<noteq> [] then Some (adminMessage s) else None)"

section \<open>Sample data and sample environments\<close>

text \<open>
  Concrete answers of the content API, used where a property is evaluated: a server that
  answers every read with its data and every write with 200, a network that is down, and a
  server that answers every request with the same status and a JSON error body.
\<close>

definition reply :: "nat \<Rightarrow> jsval \<Rightarrow> fetch_result" where
  "reply st v = Resolved \<lparr>status = st, json_body = Some v\<rparr>"

definition sample_projects :: jsval where
  "sample_projects =
     JArr [JObj [(''id'', JStr ''p1''), (''category'', JStr ''Interior'')],
           JObj [(''id'', JStr ''p2''), (''category'', JStr ''Exterior'')]]"

definition sample_blog :: jsval where
  "sample_blog = JArr [JObj [(''id'', JStr ''b1''), (''title'', JStr ''Lighting'')]]"

definition sample_testimonials :: jsval where
  "sample_testimonials = JArr [JObj [(''id'', JStr ''t1''), (''rating'', JNum 5)]]"

definition sample_settings :: jsval where
  "sample_settings = JObj [(''name'', JStr ''Rabiul Hasan'')]"

definition sample_categories :: jsval where
  "sample_categories = JArr [JStr ''Interior'', JStr ''Exterior'']"

definition error_body :: jsval where
  "error_body = JObj [(''detail'', JStr ''Internal Server Error'')]"

definition net_up :: network where
  "net_up q =
     (if q = GET_projects then reply 200 sample_projects
      else if q = GET_blog then reply 200 sample_blog
      else if q = GET_testimonials then reply 200 sample_testimonials
      else if q = GET_settings then reply 200 sample_settings
      else if q = GET_categories then reply 200 sample_categories
      else reply 200 (JObj [(''message'', JStr ''ok'')]))"

definition net_down :: network where
  "net_down q = Rejected"

definition net_error :: "nat \<Rightarrow> network" where
  "net_error st q = reply st error_body"

definition sample_form :: contact_form where
  "sample_form = \<lparr>name = ''A'', email = ''a@b.com'', message = ''hi''\<rparr>"

section \<open>Evaluation lemmas\<close>

lemma await_simps [simp]:
  "await (Inl e) k = Inl e"
  "await (Inr x) k = k x"
  by (simp_all add: await_def)

lemma json_simps [simp]:
  "json_body r = None \<Longrightarrow> json r = Inl SyntaxError"
  "json_body r = Some v \<Longrightarrow> json r = Inr v"
  by (simp_all add: json_def)

lemma gets_distinct [simp]:
  "GET_projects \<noteq> GET_blog" "GET_projects \<noteq> GET_testimonials" "GET_projects \<noteq> GET_settings" "GET_projects \<noteq> GET_categories"
  "GET_blog \<noteq> GET_projects" "GET_blog \<noteq> GET_testimonials" "GET_blog \<noteq> GET_settings" "GET_blog \<noteq> GET_categories"
  "GET_testimonials \<noteq> GET_projects" "GET_testimonials \<noteq> GET_blog" "GET_testimonials \<noteq> GET_settings" "GET_testimonials \<noteq> GET_categories"
  "GET_settings \<noteq> GET_projects" "GET_settings \<noteq> GET_blog" "GET_settings \<noteq> GET_testimonials" "GET_settings \<noteq> GET_categories"
  "GET_categories \<noteq> GET_projects" "GET_categories \<noteq> GET_blog" "GET_categories \<noteq> GET_testimonials" "GET_categories \<noteq> GET_settings"
  by (simp_all add: GET_projects_def GET_blog_def GET_testimonials_def GET_settings_def
      GET_categories_def)


lemma unreadable_cases:
  "unreadable x \<or> (\<exists>r v. x = Resolved r \<and> json_body r = Some v)"
  by (cases x) auto

lemma App_read_unreadable:
  assumes "unreadable (net GET_projects) \<or> unreadable (net GET_blog)
         \<or> unreadable (net GET_testimonials) \<or> unreadable (net GET_settings)
         \<or> unreadable (net GET_categories)"
  shows "\<exists>e. App_fetchData_read net = Inl e"
proof -
  have "\<And>x k. unreadable x \<Longrightarrow> True" by simp
  show ?thesis
    using assms
    apply (cases "net GET_projects"; cases "net GET_blog"; cases "net GET_testimonials";
        cases "net GET_settings"; cases "net GET_categories")
    apply (auto simp: App_fetchData_read_def json_def split: option.splits)
    done
qed

lemma Admin_read_ok:
  assumes "net GET_settings = Resolved r1" "net GET_projects = Resolved r2"
    "net GET_blog = Resolved r3" "net GET_testimonials = Resolved r4"
    "json_body r1 = Some sd" "json_body r2 = Some pd" "json_body r3 = Some bd"
    "json_body r4 = Some td"
  shows "AdminPanel_fetchData_read net = Inr (sd, pd, bd, td)"
  using assms by (simp add: AdminPanel_fetchData_read_def)

lemma Admin_read_unreadable:
  assumes "unreadable (net GET_settings) \<or> unreadable (net GET_projects)
         \<or> unreadable (net GET_blog) \<or> unreadable (net GET_testimonials)"
  shows "\<exists>e. AdminPanel_fetchData_read net = Inl e"
  using assms
  apply (cases "net GET_settings"; cases "net GET_projects"; cases "net GET_blog";
      cases "net GET_testimonials")
                 apply (auto simp: AdminPanel_fetchData_read_def json_def split: option.splits)
  done

lemma App_fetchData_unreadable:
  assumes "unreadable (net GET_projects) \<or> unreadable (net GET_blog)
         \<or> unreadable (net GET_testimonials) \<or> unreadable (net GET_settings)
         \<or> unreadable (net GET_categories)"
  shows "App_fetchData net s = (s, App_fetchData_issued @ [ConsoleError ''Error fetching data:''])"
proof -
  from App_read_unreadable [OF assms] obtain e where "App_fetchData_read net = Inl e" ..
  then show ?thesis by (simp add: App_fetchData_def)
qed


lemma net_up_simps [simp]:
  "net_up GET_projects = reply 200 sample_projects"
  "net_up GET_blog = reply 200 sample_blog"
  "net_up GET_testimonials = reply 200 sample_testimonials"
  "net_up GET_settings = reply 200 sample_settings"
  "net_up GET_categories = reply 200 sample_categories"
  by (simp_all add: net_up_def GET_projects_def GET_blog_def GET_testimonials_def
      GET_settings_def GET_categories_def)

lemma reply_simps [simp]:
  "fetched (reply st v) = Inr \<lparr>status = st, json_body = Some v\<rparr>"
  "unreadable (reply st v) = False"
  "transport_failure (reply st v) = False"
  "http_failure (reply st v) = (\<not> (200 \<le> st \<and> st \<le> 299))"
  by (simp_all add: reply_def ok_def)

lemma request_failed_cases:
  "request_failed x \<or> (\<exists>r. x = Resolved r \<and> ok r)"
  by (cases x) (auto simp: request_failed_def)

lemma request_failed_simps [simp]:
  "request_failed Rejected"
  "request_failed (Resolved r) = (\<not> ok r)"
  by (simp_all add: request_failed_def)

lemma await_ok_Inr:
  "x = Resolved r \<Longrightarrow> ok r \<Longrightarrow>
   await (fetched x) (\<lambda>response. if ok response then Inr () else Inl e) = Inr ()"
  by simp

lemma await_ok_Inl:
  "request_failed x \<Longrightarrow>
   \<exists>e'. await (fetched x) (\<lambda>response. if ok response then Inr () else Inl e) = Inl e'"
  by (cases x) (auto simp: request_failed_def)

lemma handleContactSubmit_ok:
  assumes "net (POST_contact (contactForm s)) = Resolved r" "ok r"
  shows "handleContactSubmit net s =
     (s\<lparr>contactForm := empty_form, isSubmitting := False\<rparr>,
      [Fetch (POST_contact (contactForm s)), Alert ''Message sent successfully!''])"
  using assms by (simp add: handleContactSubmit_def)

lemma handleContactSubmit_failed:
  assumes "request_failed (net (POST_contact (contactForm s)))"
  shows "handleContactSubmit net s =
     (s\<lparr>isSubmitting := False\<rparr>,
      [Fetch (POST_contact (contactForm s)), ConsoleError ''Error sending message:'',
       Alert ''Failed to send message. Please try again.''])"
proof -
  from await_ok_Inl [OF assms] obtain e' where
    "await (fetched (net (POST_contact (contactForm s))))
       (\<lambda>response. if ok response then Inr () else Inl (Error ''Failed to send message''))
     = Inl e'" ..
  then show ?thesis by (simp add: handleContactSubmit_def)
qed

lemma updateSettings_ok:
  assumes "net (PUT_settings u) = Resolved r" "ok r"
  shows "updateSettings net u s =
     (s\<lparr>adminMessage := ''Settings updated successfully!'', adminSettings := u,
        loading := False\<rparr>,
      [Fetch (PUT_settings u), SetTimeout_setMessage [] 3000])"
  using assms by (simp add: updateSettings_def)

lemma updateSettings_failed:
  assumes "request_failed (net (PUT_settings u))"
  shows "updateSettings net u s =
     (s\<lparr>adminMessage := ''Error updating settings'', loading := False\<rparr>,
      [Fetch (PUT_settings u), ConsoleError ''Error updating settings:''])"
proof -
  from await_ok_Inl [OF assms] obtain e' where
    "await (fetched (net (PUT_settings u)))
       (\<lambda>response. if ok response then Inr () else Inl (Error ''Failed to update settings''))
     = Inl e'" ..
  then show ?thesis by (simp add: updateSettings_def)
qed

lemma deleteItem_declined:
  "deleteItem net False kind ident s = (s, [Confirm (confirm_text kind)])"
  by (simp add: deleteItem_def)

lemma deleteItem_failed:
  assumes "request_failed (net (DELETE_item kind ident))"
  shows "deleteItem net True kind ident s =
     (s\<lparr>adminMessage := ''Error deleting '' @ kind, loading := False\<rparr>,
      [Confirm (confirm_text kind), Fetch (DELETE_item kind ident),
       ConsoleError (''Error deleting '' @ kind @ '':'')])"
proof -
  from await_ok_Inl [OF assms] obtain e' where
    "await (fetched (net (DELETE_item kind ident)))
       (\<lambda>response. if ok response then Inr () else Inl (Error (''Failed to delete '' @ kind)))
     = Inl e'" ..
  then show ?thesis by (simp add: deleteItem_def)
qed

lemma deleteItem_ok:
  assumes "net (DELETE_item kind ident) = Resolved r" "ok r"
  shows "deleteItem net True kind ident s =
     (fst (AdminPanel_fetchData_settle net
             (s\<lparr>adminMessage := kind @ '' deleted successfully!'', loading := False\<rparr>)),
      [Confirm (confirm_text kind), Fetch (DELETE_item kind ident),
       SetTimeout_setMessage [] 3000,
       Fetch GET_settings, Fetch GET_projects, Fetch GET_blog, Fetch GET_testimonials]
      @ snd (AdminPanel_fetchData_settle net
             (s\<lparr>adminMessage := kind @ '' deleted successfully!'', loading := False\<rparr>)))"
  using assms
  by (simp add: deleteItem_def AdminPanel_fetchData_start_def split_beta Let_def)

lemma AdminPanel_settle_unreadable:
  assumes "unreadable (net GET_settings) \<or> unreadable (net GET_projects)
         \<or> unreadable (net GET_blog) \<or> unreadable (net GET_testimonials)"
  shows "AdminPanel_fetchData_settle net s =
     (s\<lparr>adminMessage := ''Error loading data'', loading := False\<rparr>,
      [ConsoleError ''Error fetching data:''])"
proof -
  from Admin_read_unreadable [OF assms] obtain e where "AdminPanel_fetchData_read net = Inl e" ..
  then show ?thesis by (simp add: AdminPanel_fetchData_settle_def)
qed

lemma AdminPanel_settle_loaded:
  assumes "net GET_settings = Resolved r1" "net GET_projects = Resolved r2"
    "net GET_blog = Resolved r3" "net GET_testimonials = Resolved r4"
    "json_body r1 = Some sd" "json_body r2 = Some pd" "json_body r3 = Some bd"
    "json_body r4 = Some td"
  shows "AdminPanel_fetchData_settle net s =
     (s\<lparr>adminSettings := sd, adminProjects := pd, adminBlogPosts := bd,
        adminTestimonials := td, loading := False\<rparr>, [])"
  by (simp add: AdminPanel_fetchData_settle_def Admin_read_ok [OF assms])

lemma AdminPanel_fetchData_unreadable:
  assumes "unreadable (net GET_settings) \<or> unreadable (net GET_projects)
         \<or> unreadable (net GET_blog) \<or> unreadable (net GET_testimonials)"
  shows "AdminPanel_fetchData net s =
     (s\<lparr>adminMessage := ''Error loading data'', loading := False\<rparr>,
      [Fetch GET_settings, Fetch GET_projects, Fetch GET_blog, Fetch GET_testimonials,
       ConsoleError ''Error fetching data:''])"
  by (simp add: AdminPanel_fetchData_def AdminPanel_fetchData_start_def
      AdminPanel_settle_unreadable [OF assms])

lemma AdminPanel_fetchData_loaded:
  assumes "net GET_settings = Resolved r1" "net GET_projects = Resolved r2"
    "net GET_blog = Resolved r3" "net GET_testimonials = Resolved r4"
    "json_body r1 = Some sd" "json_body r2 = Some pd" "json_body r3 = Some bd"
    "json_body r4 = Some td"
  shows "AdminPanel_fetchData net s =
     (s\<lparr>adminSettings := sd, adminProjects := pd, adminBlogPosts := bd,
        adminTestimonials := td, loading := False\<rparr>,
      [Fetch GET_settings, Fetch GET_projects, Fetch GET_blog, Fetch GET_testimonials])"
  by (simp add: AdminPanel_fetchData_def AdminPanel_fetchData_start_def
      AdminPanel_settle_loaded [OF assms])

lemma AdminPanel_settle_readable:
  assumes "\<not> unreadable (net GET_settings)" "\<not> unreadable (net GET_projects)"
    "\<not> unreadable (net GET_blog)" "\<not> unreadable (net GET_testimonials)"
  shows "adminMessage (fst (AdminPanel_fetchData_settle net s)) = adminMessage s
       \<and> loading (fst (AdminPanel_fetchData_settle net s)) = False
       \<and> snd (AdminPanel_fetchData_settle net s) = []"
proof -
  from assms(1) unreadable_cases [of "net GET_settings"]
  obtain r1 v1 where 1: "net GET_settings = Resolved r1" "json_body r1 = Some v1" by blast
  from assms(2) unreadable_cases [of "net GET_projects"]
  obtain r2 v2 where 2: "net GET_projects = Resolved r2" "json_body r2 = Some v2" by blast
  from assms(3) unreadable_cases [of "net GET_blog"]
  obtain r3 v3 where 3: "net GET_blog = Resolved r3" "json_body r3 = Some v3" by blast
  from assms(4) unreadable_cases [of "net GET_testimonials"]
  obtain r4 v4 where 4: "net GET_testimonials = Resolved r4" "json_body r4 = Some v4" by blast
  show ?thesis
    by (simp add: AdminPanel_settle_loaded [OF 1(1) 2(1) 3(1) 4(1) 1(2) 2(2) 3(2) 4(2)])
qed

lemma deleteItem_reload_unreadable:
  assumes "net (DELETE_item kind ident) = Resolved r" "ok r"
    "unreadable (net GET_settings) \<or> unreadable (net GET_projects)
     \<or> unreadable (net GET_blog) \<or> unreadable (net GET_testimonials)"
  shows "deleteItem net True kind ident s =
     (s\<lparr>adminMessage := ''Error loading data'', loading := False\<rparr>,
      [Confirm (confirm_text kind), Fetch (DELETE_item kind ident),
       SetTimeout_setMessage [] 3000,
       Fetch GET_settings, Fetch GET_projects, Fetch GET_blog, Fetch GET_testimonials,
       ConsoleError ''Error fetching data:''])"
  by (simp add: deleteItem_ok [of net kind ident r s, OF assms(1,2)]
      AdminPanel_settle_unreadable [OF assms(3)])



section \<open>Properties of the filter projector\<close>

lemma js_filter_objects:
  "list_all is_object xs \<Longrightarrow> js_filter (category_is f) xs = Inr (filter (has_category f) xs)"
proof (induction xs)
  case Nil
  then show ?case by simp
next
  case (Cons x xs)
  then obtain kvs where "x = JObj kvs" by (cases x) auto
  with Cons show ?case by (simp add: category_is_def has_category_def)
qed

text \<open>
  Claim C1. For every project collection \<open>P\<close> (an array of project objects) and every
  filter string \<open>f\<close>, the filter projector returns \<open>P\<close> itself when \<open>f\<close> is \<open>"All"\<close>,
  and otherwise exactly the projects of \<open>P\<close> whose category is \<open>f\<close>, in their order; in
  all cases the result is a subset of \<open>P\<close>. The projector is a function of \<open>P\<close> and \<open>f\<close>
  alone: it takes no state and returns no effect.
\<close>

theorem filteredProjects_correct:
  assumes "list_all is_object P"
  shows "filteredProjects (JArr P) ''All'' = Inr (JArr P)
       \<and> (f \<noteq> ''All'' \<longrightarrow>
            filteredProjects (JArr P) f = Inr (JArr (filter (has_category f) P)))
       \<and> (\<exists>Q. filteredProjects (JArr P) f = Inr (JArr Q) \<and> set Q \<subseteq> set P)"
  using assms by (auto simp: filteredProjects_def js_filter_objects)

theorem filteredProjects_correct_witness:
  "list_all is_object
     [JObj [(''id'', JStr ''p1''), (''category'', JStr ''Interior'')],
      JObj [(''id'', JStr ''p2''), (''category'', JStr ''Exterior'')]]
   \<and> filteredProjects
        (JArr [JObj [(''id'', JStr ''p1''), (''category'', JStr ''Interior'')],
               JObj [(''id'', JStr ''p2''), (''category'', JStr ''Exterior'')]]) ''All''
      = Inr (JArr [JObj [(''id'', JStr ''p1''), (''category'', JStr ''Interior'')],
                   JObj [(''id'', JStr ''p2''), (''category'', JStr ''Exterior'')]])
   \<and> filteredProjects
        (JArr [JObj [(''id'', JStr ''p1''), (''category'', JStr ''Interior'')],
               JObj [(''id'', JStr ''p2''), (''category'', JStr ''Exterior'')]]) ''Exterior''
      = Inr (JArr [JObj [(''id'', JStr ''p2''), (''category'', JStr ''Exterior'')]])"
  using filteredProjects_correct
    [of "[JObj [(''id'', JStr ''p1''), (''category'', JStr ''Interior'')],
          JObj [(''id'', JStr ''p2''), (''category'', JStr ''Exterior'')]]" "''Exterior''"]
  by (simp add: has_category_def)

section \<open>Properties of the initial load\<close>

text \<open>
  Claim C2. The claim asks that the five slots change together or not at all, and that
  nothing changes when a read fails. \<open>fetchData\<close> gives this when \<open>fetch\<close> or
  \<open>json()\<close> rejects, but it never looks at \<open>response.ok\<close>, which the contact,
  settings and delete handlers all do, so a read that fails with an HTTP status and a JSON
  error body is stored like data. Evaluated here: when the categories read answers 500
  with an error object, the four setters run, the spread of the object throws and is
  logged, and four of the five slots have changed; when the projects read answers 503 with
  an error object, all five slots are written, the project slot with the error object, and
  nothing is logged.
\<close>

theorem App_fetchData_http_failure:
  "App_fetchData (net_up(GET_categories := reply 500 error_body)) App_initial =
     (App_initial\<lparr>projects := sample_projects, blogPosts := sample_blog,
        testimonials := sample_testimonials, settings := sample_settings\<rparr>,
      App_fetchData_issued @ [ConsoleError ''Error fetching data:''])
   \<and> App_fetchData (net_up(GET_projects := reply 503 error_body)) App_initial =
     (App_initial\<lparr>projects := error_body, blogPosts := sample_blog,
        testimonials := sample_testimonials, settings := sample_settings,
        projectCategories := JArr [JStr ''All'', JStr ''Interior'', JStr ''Exterior'']\<rparr>,
      App_fetchData_issued)
   \<and> http_failure ((net_up(GET_categories := reply 500 error_body)) GET_categories)
   \<and> http_failure ((net_up(GET_projects := reply 503 error_body)) GET_projects)"
  by (simp add: App_fetchData_def App_fetchData_read_def error_body_def sample_categories_def)




section \<open>Properties of the two overlays\<close>

text \<open>
  Claim C4. The two selection slots are independent. Selecting a project leaves the
  selected post as it is, and selecting a post leaves the selected project as it is;
  closing the project overlay writes \<open>null\<close> to the project slot and changes nothing
  else, and likewise for the post overlay. A slot holds one value: a second selection
  replaces the first. Both slots can be filled at once. With a slot that holds \<open>null\<close> or
  an entity, an overlay is visible exactly when its slot is not \<open>null\<close>. (A card that can
  be clicked has been rendered, which reads \<open>software_used\<close> or \<open>tags\<close> of the entity,
  so what a click selects is an object.)
\<close>

theorem modal_slots:
  "selectedBlogPost (setSelectedProject p s) = selectedBlogPost s
   \<and> selectedProject (setSelectedBlogPost b s) = selectedProject s
   \<and> ProjectModal_onClose s = s\<lparr>selectedProject := JNull\<rparr>
   \<and> BlogModal_onClose s = s\<lparr>selectedBlogPost := JNull\<rparr>
   \<and> setSelectedProject q (setSelectedProject p s) = setSelectedProject q s
   \<and> setSelectedBlogPost c (setSelectedBlogPost b s) = setSelectedBlogPost c s
   \<and> selectedProject (setSelectedProject p (setSelectedBlogPost b s)) = p
   \<and> selectedBlogPost (setSelectedProject p (setSelectedBlogPost b s)) = b
   \<and> (slot_ok (selectedProject s) \<longrightarrow>
        ProjectModal_visible s = (selectedProject s \<noteq> JNull))
   \<and> (slot_ok (selectedBlogPost s) \<longrightarrow>
        BlogModal_visible s = (selectedBlogPost s \<noteq> JNull))"
  by (auto simp: setSelectedProject_def setSelectedBlogPost_def ProjectModal_onClose_def
      BlogModal_onClose_def ProjectModal_visible_def BlogModal_visible_def slot_ok_def
      elim: is_object.elims)

theorem modal_slots_witness:
  "slot_ok (selectedProject
      (setSelectedProject (JObj [(''id'', JStr ''p1'')])
         (setSelectedBlogPost (JObj [(''id'', JStr ''b1'')]) App_initial)))
   \<and> slot_ok (selectedBlogPost
      (setSelectedProject (JObj [(''id'', JStr ''p1'')])
         (setSelectedBlogPost (JObj [(''id'', JStr ''b1'')]) App_initial)))
   \<and> ProjectModal_visible
      (setSelectedProject (JObj [(''id'', JStr ''p1'')])
         (setSelectedBlogPost (JObj [(''id'', JStr ''b1'')]) App_initial))
   \<and> BlogModal_visible
      (setSelectedProject (JObj [(''id'', JStr ''p1'')])
         (setSelectedBlogPost (JObj [(''id'', JStr ''b1'')]) App_initial))
   \<and> slot_ok (selectedProject App_initial)
   \<and> \<not> ProjectModal_visible App_initial"
  using modal_slots
    [of "JObj [(''id'', JStr ''p1'')]"
        "setSelectedProject (JObj [(''id'', JStr ''p1'')])
           (setSelectedBlogPost (JObj [(''id'', JStr ''b1'')]) App_initial)"
        "JObj [(''id'', JStr ''b1'')]"]
    modal_slots [of JNull App_initial JNull]
  by (simp add: slot_ok_def setSelectedProject_def setSelectedBlogPost_def App_initial_def)

section \<open>Properties of the view router\<close>

text \<open>
  Claim C5. What is rendered is a function of the active section alone. On \<open>home\<close> it is
  the home view followed by the about, skills, portfolio, testimonials, blog and contact
  views, in that order; on each of the other five sections it is that section's view and
  nothing else. The initial section is \<open>home\<close>, and selecting a section overwrites the
  current one: selecting twice is selecting once, and nothing of an earlier selection
  survives a later one.
\<close>

theorem view_router:
  "App_main (setActiveSection ''home'' s) =
     [HeroSection, AboutSection, SkillsSection, PortfolioSection, TestimonialsSection,
      BlogSection, ContactSection]
   \<and> App_main (setActiveSection ''about'' s) = [AboutSection]
   \<and> App_main (setActiveSection ''portfolio'' s) = [PortfolioSection]
   \<and> App_main (setActiveSection ''blog'' s) = [BlogSection]
   \<and> App_main (setActiveSection ''skills'' s) = [SkillsSection]
   \<and> App_main (setActiveSection ''contact'' s) = [ContactSection]
   \<and> App_main s = App_main (setActiveSection (activeSection s) App_initial)
   \<and> activeSection App_initial = ''home''
   \<and> activeSection (setActiveSection x s) = x
   \<and> setActiveSection x (setActiveSection x s) = setActiveSection x s
   \<and> setActiveSection y (setActiveSection x s) = setActiveSection y s"
  by (simp add: App_main_def renderSection_def setActiveSection_def App_initial_def)

section \<open>Properties of the admin console\<close>

text \<open>
  Claim C6. The claim asks that after a settings PUT answered with a status outside
  200..299 the settings slot still holds the last successfully fetched or updated
  settings, and that a non-empty error message is shown. \<open>updateSettings\<close> itself does
  its part: it leaves the slot alone and sets the message (lemma
  \<open>updateSettings_failed\<close>). But \<open>fetchData\<close> of the admin console never looks at
  \<open>response.ok\<close>, which \<open>updateSettings\<close> and \<open>deleteItem\<close> do, so what the
  slot holds need not be settings that were fetched successfully. Evaluated here: the
  panel loads the settings; a confirmed delete is answered with 200 and its re-fetch of
  the settings with 500 and a JSON error object, which is stored in the settings slot
  without anything being logged; the settings PUT that follows is answered with 500, and
  the slot holds the error object, not the settings loaded before.
\<close>

theorem updateSettings_after_failed_reload:
  "adminSettings (fst (AdminPanel_fetchData net_up AdminPanel_initial)) = sample_settings
   \<and> http_failure ((net_up(GET_settings := reply 500 error_body)) GET_settings)
   \<and> deleteItem (net_up(GET_settings := reply 500 error_body)) True ''projects'' ''p1''
       (fst (AdminPanel_fetchData net_up AdminPanel_initial)) =
       (AdminPanel_initial\<lparr>adminSettings := error_body, adminProjects := sample_projects,
          adminBlogPosts := sample_blog, adminTestimonials := sample_testimonials,
          adminMessage := ''projects deleted successfully!''\<rparr>,
        [Confirm ''Are you sure you want to delete this projects?'',
         Fetch (Request DELETE ''/api/projects/p1'' None),
         SetTimeout_setMessage [] 3000,
         Fetch GET_settings, Fetch GET_projects, Fetch GET_blog, Fetch GET_testimonials])
   \<and> http_failure (net_error 500 (PUT_settings (JObj [(''name'', JStr ''R. Hasan'')])))
   \<and> updateSettings (net_error 500) (JObj [(''name'', JStr ''R. Hasan'')])
       (fst (deleteItem (net_up(GET_settings := reply 500 error_body)) True ''projects'' ''p1''
          (fst (AdminPanel_fetchData net_up AdminPanel_initial)))) =
       (AdminPanel_initial\<lparr>adminSettings := error_body, adminProjects := sample_projects,
          adminBlogPosts := sample_blog, adminTestimonials := sample_testimonials,
          adminMessage := ''Error updating settings''\<rparr>,
        [Fetch (Request PUT ''/api/settings'' (Some (JObj [(''name'', JStr ''R. Hasan'')]))),
         ConsoleError ''Error updating settings:''])
   \<and> error_body \<noteq> sample_settings"
  by (simp add: AdminPanel_fetchData_def AdminPanel_fetchData_start_def
      AdminPanel_fetchData_settle_def AdminPanel_fetchData_read_def deleteItem_def
      updateSettings_def net_up_def net_error_def DELETE_item_def PUT_settings_def
      confirm_text_def AdminPanel_initial_def error_body_def sample_settings_def
      GET_projects_def GET_blog_def GET_testimonials_def GET_settings_def GET_categories_def
      ok_def reply_def)

text \<open>
  Claim C7, as stated, fails: a confirmed delete whose DELETE request is answered with
  500 issues no read at all and sets an error message, not a success message.
\<close>

theorem deleteItem_counterexample:
  "deleteItem (net_error 500) True ''projects'' ''p1'' AdminPanel_initial =
     (AdminPanel_initial\<lparr>adminMessage := ''Error deleting projects''\<rparr>,
      [Confirm ''Are you sure you want to delete this projects?'',
       Fetch (Request DELETE ''/api/projects/p1'' None),
       ConsoleError ''Error deleting projects:''])"
  by (simp add: deleteItem_def net_error_def reply_def ok_def DELETE_item_def
      confirm_text_def AdminPanel_initial_def)

text \<open>
  Claim C7, amended. A declined confirmation issues no request and changes no state. A
  confirmed \<open>deleteItem(kind, id)\<close> issues \<open>DELETE /api/{kind}/{id}\<close>. When that
  request is answered with a 2xx status, the success message is set, its timer started,
  and the four reads (settings, projects, blog posts, testimonials) are issued whatever
  the kind; the state is then what the reload makes of it, and when the four reads can be
  read the message is still the success message. When the DELETE request fails (transport
  failure or a status outside 200..299), no read is issued, the failure is logged and the
  message is \<open>'Error deleting {kind}'\<close>.
\<close>

theorem deleteItem_outcomes:
  "deleteItem net False kind ident s = (s, [Confirm (confirm_text kind)])
   \<and> DELETE_item kind ident = Request DELETE (''/api/'' @ kind @ ''/'' @ ident) None
   \<and> (net (DELETE_item kind ident) = Resolved r \<and> ok r \<longrightarrow>
        deleteItem net True kind ident s =
          (fst (AdminPanel_fetchData_settle net
             (s\<lparr>adminMessage := kind @ '' deleted successfully!'', loading := False\<rparr>)),
           [Confirm (confirm_text kind), Fetch (DELETE_item kind ident),
            SetTimeout_setMessage [] 3000,
            Fetch GET_settings, Fetch GET_projects, Fetch GET_blog, Fetch GET_testimonials]
           @ snd (AdminPanel_fetchData_settle net
             (s\<lparr>adminMessage := kind @ '' deleted successfully!'', loading := False\<rparr>))))
   \<and> (net (DELETE_item kind ident) = Resolved r \<and> ok r
        \<and> \<not> unreadable (net GET_settings) \<and> \<not> unreadable (net GET_projects)
        \<and> \<not> unreadable (net GET_blog) \<and> \<not> unreadable (net GET_testimonials) \<longrightarrow>
        adminMessage (fst (deleteItem net True kind ident s)) = kind @ '' deleted successfully!''
        \<and> snd (deleteItem net True kind ident s) =
          [Confirm (confirm_text kind), Fetch (DELETE_item kind ident),
           SetTimeout_setMessage [] 3000,
           Fetch GET_settings, Fetch GET_projects, Fetch GET_blog, Fetch GET_testimonials])
   \<and> (request_failed (net (DELETE_item kind ident)) \<longrightarrow>
        deleteItem net True kind ident s =
          (s\<lparr>adminMessage := ''Error deleting '' @ kind, loading := False\<rparr>,
           [Confirm (confirm_text kind), Fetch (DELETE_item kind ident),
            ConsoleError (''Error deleting '' @ kind @ '':'')]))"
proof -
  have declined: "deleteItem net False kind ident s = (s, [Confirm (confirm_text kind)])"
    by (rule deleteItem_declined)
  have path: "DELETE_item kind ident = Request DELETE (''/api/'' @ kind @ ''/'' @ ident) None"
    by (simp add: DELETE_item_def)
  have accepted: "net (DELETE_item kind ident) = Resolved r \<and> ok r \<longrightarrow>
        deleteItem net True kind ident s =
          (fst (AdminPanel_fetchData_settle net
             (s\<lparr>adminMessage := kind @ '' deleted successfully!'', loading := False\<rparr>)),
           [Confirm (confirm_text kind), Fetch (DELETE_item kind ident),
            SetTimeout_setMessage [] 3000,
            Fetch GET_settings, Fetch GET_projects, Fetch GET_blog, Fetch GET_testimonials]
           @ snd (AdminPanel_fetchData_settle net
             (s\<lparr>adminMessage := kind @ '' deleted successfully!'', loading := False\<rparr>)))"
    using deleteItem_ok [of net kind ident r s] by blast
  have reloaded: "net (DELETE_item kind ident) = Resolved r \<and> ok r
        \<and> \<not> unreadable (net GET_settings) \<and> \<not> unreadable (net GET_projects)
        \<and> \<not> unreadable (net GET_blog) \<and> \<not> unreadable (net GET_testimonials) \<longrightarrow>
        adminMessage (fst (deleteItem net True kind ident s)) = kind @ '' deleted successfully!''
        \<and> snd (deleteItem net True kind ident s) =
          [Confirm (confirm_text kind), Fetch (DELETE_item kind ident),
           SetTimeout_setMessage [] 3000,
           Fetch GET_settings, Fetch GET_projects, Fetch GET_blog, Fetch GET_testimonials]"
    using deleteItem_ok [of net kind ident r s]
      AdminPanel_settle_readable [of net
        "s\<lparr>adminMessage := kind @ '' deleted successfully!'', loading := False\<rparr>"]
    by auto
  have refused: "request_failed (net (DELETE_item kind ident)) \<longrightarrow>
        deleteItem net True kind ident s =
          (s\<lparr>adminMessage := ''Error deleting '' @ kind, loading := False\<rparr>,
           [Confirm (confirm_text kind), Fetch (DELETE_item kind ident),
            ConsoleError (''Error deleting '' @ kind @ '':'')])"
    using deleteItem_failed [of net kind ident s] by blast
  from declined path accepted reloaded refused show ?thesis by blast
qed

theorem deleteItem_outcomes_witness:
  "net_up (DELETE_item ''projects'' ''p1'')
     = Resolved \<lparr>status = 200, json_body = Some (JObj [(''message'', JStr ''ok'')])\<rparr>
   \<and> ok \<lparr>status = 200, json_body = Some (JObj [(''message'', JStr ''ok'')])\<rparr>
   \<and> \<not> unreadable (net_up GET_settings) \<and> \<not> unreadable (net_up GET_projects)
   \<and> \<not> unreadable (net_up GET_blog) \<and> \<not> unreadable (net_up GET_testimonials)
   \<and> adminMessage (fst (deleteItem net_up True ''projects'' ''p1'' AdminPanel_initial))
     = ''projects deleted successfully!''
   \<and> snd (deleteItem net_up True ''projects'' ''p1'' AdminPanel_initial) =
       [Confirm ''Are you sure you want to delete this projects?'',
        Fetch (Request DELETE ''/api/projects/p1'' None),
        SetTimeout_setMessage [] 3000,
        Fetch GET_settings, Fetch GET_projects, Fetch GET_blog, Fetch GET_testimonials]
   \<and> request_failed (net_down (DELETE_item ''projects'' ''p1''))
   \<and> deleteItem net_down True ''projects'' ''p1'' AdminPanel_initial =
       (AdminPanel_initial\<lparr>adminMessage := ''Error deleting projects'', loading := False\<rparr>,
        [Confirm ''Are you sure you want to delete this projects?'',
         Fetch (Request DELETE ''/api/projects/p1'' None),
         ConsoleError ''Error deleting projects:''])
   \<and> deleteItem net_up False ''projects'' ''p1'' AdminPanel_initial =
       (AdminPanel_initial, [Confirm ''Are you sure you want to delete this projects?''])"
proof -
  let ?r = "\<lparr>status = 200, json_body = Some (JObj [(''message'', JStr ''ok'')])\<rparr>"
  have up: "net_up (DELETE_item ''projects'' ''p1'') = Resolved ?r" "ok ?r"
    by (simp_all add: net_up_def reply_def ok_def DELETE_item_def GET_projects_def GET_blog_def
        GET_testimonials_def GET_settings_def GET_categories_def)
  have reads: "\<not> unreadable (net_up GET_settings)" "\<not> unreadable (net_up GET_projects)"
    "\<not> unreadable (net_up GET_blog)" "\<not> unreadable (net_up GET_testimonials)"
    by simp_all
  have down: "request_failed (net_down (DELETE_item ''projects'' ''p1''))"
    by (simp add: net_down_def)
  have q: "DELETE_item ''projects'' ''p1'' = Request DELETE ''/api/projects/p1'' None"
    "confirm_text ''projects'' = ''Are you sure you want to delete this projects?''"
    "''projects'' @ '' deleted successfully!'' = ''projects deleted successfully!''"
    "''Error deleting '' @ ''projects'' = ''Error deleting projects''"
    "''Error deleting '' @ ''projects'' @ '':'' = ''Error deleting projects:''"
    by (simp_all add: DELETE_item_def confirm_text_def)
  from deleteItem_outcomes [of net_up "''projects''" "''p1''" AdminPanel_initial ?r]
    deleteItem_outcomes [of net_down "''projects''" "''p1''" AdminPanel_initial ?r]
    up reads down
  show ?thesis unfolding q by blast
qed

text \<open>
  Claim C10. A settings update sends \<open>PUT /api/settings\<close> with the value
  \<open>updatedSettings\<close> as its JSON body. When the answer has a 2xx status, the settings
  slot is set to that same value. The body of the response is not read: replacing it by
  any other body, or by none, gives the same state and the same effects.
\<close>

theorem updateSettings_mirrors_request:
  assumes "net (PUT_settings u) = Resolved r" "ok r"
  shows "PUT_settings u = Request PUT ''/api/settings'' (Some u)
       \<and> updateSettings net u s =
           (s\<lparr>adminMessage := ''Settings updated successfully!'', adminSettings := u,
              loading := False\<rparr>,
            [Fetch (Request PUT ''/api/settings'' (Some u)), SetTimeout_setMessage [] 3000])
       \<and> adminSettings (fst (updateSettings net u s)) = u
       \<and> updateSettings (net(PUT_settings u := Resolved (r\<lparr>json_body := b\<rparr>))) u s
         = updateSettings net u s"
proof -
  have sent: "PUT_settings u = Request PUT ''/api/settings'' (Some u)"
    by (simp add: PUT_settings_def)
  have "ok (r\<lparr>json_body := b\<rparr>)" using assms(2) by (simp add: ok_def)
  then have other: "updateSettings (net(PUT_settings u := Resolved (r\<lparr>json_body := b\<rparr>))) u s =
     (s\<lparr>adminMessage := ''Settings updated successfully!'', adminSettings := u,
        loading := False\<rparr>,
      [Fetch (PUT_settings u), SetTimeout_setMessage [] 3000])"
    by (intro updateSettings_ok) simp_all
  from updateSettings_ok [of net u r s, OF assms] other sent show ?thesis by simp
qed

theorem updateSettings_mirrors_request_witness:
  "net_up (PUT_settings sample_settings)
     = Resolved \<lparr>status = 200, json_body = Some (JObj [(''message'', JStr ''ok'')])\<rparr>
   \<and> ok \<lparr>status = 200, json_body = Some (JObj [(''message'', JStr ''ok'')])\<rparr>
   \<and> updateSettings net_up sample_settings AdminPanel_initial =
       (AdminPanel_initial\<lparr>adminMessage := ''Settings updated successfully!'',
          adminSettings := sample_settings, loading := False\<rparr>,
        [Fetch (Request PUT ''/api/settings'' (Some sample_settings)),
         SetTimeout_setMessage [] 3000])
   \<and> adminSettings (fst (updateSettings net_up sample_settings AdminPanel_initial))
     = sample_settings
   \<and> updateSettings
       (net_up(PUT_settings sample_settings :=
          Resolved \<lparr>status = 200, json_body = Some (JObj [(''name'', JStr ''Someone else'')])\<rparr>))
       sample_settings AdminPanel_initial
     = updateSettings net_up sample_settings AdminPanel_initial"
proof -
  let ?k = "\<lparr>status = 200, json_body = Some (JObj [(''message'', JStr ''ok'')])\<rparr>"
  have k: "net_up (PUT_settings sample_settings) = Resolved ?k" "ok ?k"
    by (simp_all add: net_up_def reply_def ok_def PUT_settings_def GET_projects_def
        GET_blog_def GET_testimonials_def GET_settings_def GET_categories_def)
  have u: "?k\<lparr>json_body := Some (JObj [(''name'', JStr ''Someone else'')])\<rparr>
      = \<lparr>status = 200, json_body = Some (JObj [(''name'', JStr ''Someone else'')])\<rparr>"
    by simp
  from updateSettings_mirrors_request
    [of net_up sample_settings ?k AdminPanel_initial
        "Some (JObj [(''name'', JStr ''Someone else'')])"] k
  show ?thesis unfolding u by blast
qed

section \<open>Properties of the contact form\<close>

text \<open>
  Claim C8. When the contact POST is answered with a 2xx status, the form is reset to
  three empty strings, the confirmation alert is shown and \<open>isSubmitting\<close> is false
  again. When the submission fails (transport failure or a status outside 200..299), the
  form is what it was, the failure alert is shown and \<open>isSubmitting\<close> is false again.
  The form is reset in no other case.
\<close>

theorem handleContactSubmit_outcomes:
  "(net (POST_contact (contactForm s)) = Resolved r \<and> ok r \<longrightarrow>
      handleContactSubmit net s =
        (s\<lparr>contactForm := empty_form, isSubmitting := False\<rparr>,
         [Fetch (POST_contact (contactForm s)), Alert ''Message sent successfully!'']))
   \<and> (request_failed (net (POST_contact (contactForm s))) \<longrightarrow>
      handleContactSubmit net s =
        (s\<lparr>isSubmitting := False\<rparr>,
         [Fetch (POST_contact (contactForm s)), ConsoleError ''Error sending message:'',
          Alert ''Failed to send message. Please try again.'']))
   \<and> contactForm (fst (handleContactSubmit net s)) =
       (if request_failed (net (POST_contact (contactForm s))) then contactForm s
        else empty_form)
   \<and> isSubmitting (fst (handleContactSubmit net s)) = False
   \<and> name empty_form = [] \<and> email empty_form = [] \<and> message empty_form = []"
proof -
  have ok: "net (POST_contact (contactForm s)) = Resolved r \<and> ok r \<longrightarrow>
      handleContactSubmit net s =
        (s\<lparr>contactForm := empty_form, isSubmitting := False\<rparr>,
         [Fetch (POST_contact (contactForm s)), Alert ''Message sent successfully!''])"
    by (simp add: handleContactSubmit_ok)
  have failed: "request_failed (net (POST_contact (contactForm s))) \<longrightarrow>
      handleContactSubmit net s =
        (s\<lparr>isSubmitting := False\<rparr>,
         [Fetch (POST_contact (contactForm s)), ConsoleError ''Error sending message:'',
          Alert ''Failed to send message. Please try again.''])"
    by (simp add: handleContactSubmit_failed)
  have both: "contactForm (fst (handleContactSubmit net s)) =
       (if request_failed (net (POST_contact (contactForm s))) then contactForm s
        else empty_form)
     \<and> isSubmitting (fst (handleContactSubmit net s)) = False"
    using request_failed_cases [of "net (POST_contact (contactForm s))"]
    by (auto simp: handleContactSubmit_ok handleContactSubmit_failed)
  from ok failed both show ?thesis by (simp add: empty_form_def)
qed

theorem handleContactSubmit_outcomes_witness:
  "net_up (POST_contact (contactForm (App_initial\<lparr>contactForm := sample_form\<rparr>)))
     = Resolved \<lparr>status = 200, json_body = Some (JObj [(''message'', JStr ''ok'')])\<rparr>
   \<and> ok \<lparr>status = 200, json_body = Some (JObj [(''message'', JStr ''ok'')])\<rparr>
   \<and> handleContactSubmit net_up (App_initial\<lparr>contactForm := sample_form\<rparr>) =
       (App_initial,
        [Fetch (Request POST ''/api/contact''
                  (Some (JObj [(''name'', JStr ''A''), (''email'', JStr ''a@b.com''),
                               (''message'', JStr ''hi'')]))),
         Alert ''Message sent successfully!''])
   \<and> request_failed
        (net_error 500 (POST_contact (contactForm (App_initial\<lparr>contactForm := sample_form\<rparr>))))
   \<and> handleContactSubmit (net_error 500) (App_initial\<lparr>contactForm := sample_form\<rparr>) =
       (App_initial\<lparr>contactForm := sample_form\<rparr>,
        [Fetch (Request POST ''/api/contact''
                  (Some (JObj [(''name'', JStr ''A''), (''email'', JStr ''a@b.com''),
                               (''message'', JStr ''hi'')]))),
         ConsoleError ''Error sending message:'',
         Alert ''Failed to send message. Please try again.''])"
proof -
  let ?s = "App_initial\<lparr>contactForm := sample_form\<rparr>"
  let ?r = "\<lparr>status = 200, json_body = Some (JObj [(''message'', JStr ''ok'')])\<rparr>"
  have up: "net_up (POST_contact (contactForm ?s)) = Resolved ?r \<and> ok ?r"
    by (simp add: net_up_def reply_def ok_def POST_contact_def GET_projects_def GET_blog_def
        GET_testimonials_def GET_settings_def GET_categories_def)
  have down: "request_failed (net_error 500 (POST_contact (contactForm ?s)))"
    by (simp add: net_error_def reply_def ok_def)
  have q: "POST_contact (contactForm ?s) =
      Request POST ''/api/contact''
        (Some (JObj [(''name'', JStr ''A''), (''email'', JStr ''a@b.com''),
                     (''message'', JStr ''hi'')]))"
    by (simp add: POST_contact_def form_json_def sample_form_def)
  have e: "?s\<lparr>contactForm := empty_form, isSubmitting := False\<rparr> = App_initial"
    "?s\<lparr>isSubmitting := False\<rparr> = ?s"
    by (simp_all add: App_initial_def)
  from handleContactSubmit_outcomes [of net_up ?s ?r] up
    handleContactSubmit_outcomes [of "net_error 500" ?s ?r] down
  show ?thesis unfolding q e by blast
qed

section \<open>Failure handling across the handlers\<close>

text \<open>
  Claim C9, as stated, fails: when the initial load of the public client fails, the
  failure is logged and nothing is shown to the user; and a read answered with status 500
  and a JSON error body is not treated as a failure at all, the load overwrites the state
  with the error bodies.
\<close>

theorem failure_surfacing_counterexample:
  "App_fetchData net_down App_initial =
     (App_initial, App_fetchData_issued @ [ConsoleError ''Error fetching data:''])
   \<and> \<not> list_ex is_alert (snd (App_fetchData net_down App_initial))
   \<and> http_failure (net_error 500 GET_projects)
   \<and> fst (App_fetchData (net_error 500) App_initial) \<noteq> App_initial"
  by (simp add: App_fetchData_def App_fetchData_read_def net_down_def net_error_def
      App_fetchData_issued_def error_body_def App_initial_def)

text \<open>
  Claim C9, amended. Every failure the client detects is caught and logged, and the data
  it holds is left as it was: a rejected \<open>fetch\<close> or an unreadable body in either
  \<open>fetchData\<close>, also in the re-fetch that follows a DELETE answered with a 2xx status,
  and a transport failure or a status outside 200..299 in \<open>updateSettings\<close>,
  \<open>deleteItem\<close> and \<open>handleContactSubmit\<close>. The public client's load only logs; the
  admin console sets its message slot to the error message and \<open>loading\<close> to false;
  the contact form raises an alert and sets \<open>isSubmitting\<close> to false. The effects of
  each failure path are given in full: a failing handler starts no timer, and the only
  timer in a failure path is the one the 2xx DELETE started before its re-fetch failed.
\<close>

theorem detected_failures_handled:
  "(unreadable (net GET_projects) \<or> unreadable (net GET_blog)
      \<or> unreadable (net GET_testimonials) \<or> unreadable (net GET_settings)
      \<or> unreadable (net GET_categories) \<longrightarrow>
      App_fetchData net s =
        (s, App_fetchData_issued @ [ConsoleError ''Error fetching data:'']))
   \<and> (unreadable (net GET_settings) \<or> unreadable (net GET_projects)
      \<or> unreadable (net GET_blog) \<or> unreadable (net GET_testimonials) \<longrightarrow>
      AdminPanel_fetchData net a =
        (a\<lparr>adminMessage := ''Error loading data'', loading := False\<rparr>,
         [Fetch GET_settings, Fetch GET_projects, Fetch GET_blog, Fetch GET_testimonials,
          ConsoleError ''Error fetching data:'']))
   \<and> (request_failed (net (PUT_settings u)) \<longrightarrow>
      updateSettings net u a =
        (a\<lparr>adminMessage := ''Error updating settings'', loading := False\<rparr>,
         [Fetch (PUT_settings u), ConsoleError ''Error updating settings:'']))
   \<and> (request_failed (net (DELETE_item kind ident)) \<longrightarrow>
      deleteItem net True kind ident a =
        (a\<lparr>adminMessage := ''Error deleting '' @ kind, loading := False\<rparr>,
         [Confirm (confirm_text kind), Fetch (DELETE_item kind ident),
          ConsoleError (''Error deleting '' @ kind @ '':'')]))
   \<and> (net (DELETE_item kind ident) = Resolved r \<and> ok r
      \<and> (unreadable (net GET_settings) \<or> unreadable (net GET_projects)
         \<or> unreadable (net GET_blog) \<or> unreadable (net GET_testimonials)) \<longrightarrow>
      deleteItem net True kind ident a =
        (a\<lparr>adminMessage := ''Error loading data'', loading := False\<rparr>,
         [Confirm (confirm_text kind), Fetch (DELETE_item kind ident),
          SetTimeout_setMessage [] 3000,
          Fetch GET_settings, Fetch GET_projects, Fetch GET_blog, Fetch GET_testimonials,
          ConsoleError ''Error fetching data:'']))
   \<and> (request_failed (net (POST_contact (contactForm s))) \<longrightarrow>
      handleContactSubmit net s =
        (s\<lparr>isSubmitting := False\<rparr>,
         [Fetch (POST_contact (contactForm s)), ConsoleError ''Error sending message:'',
          Alert ''Failed to send message. Please try again.'']))"
  using App_fetchData_unreadable [of net s] AdminPanel_fetchData_unreadable [of net a]
    updateSettings_failed [of net u a] deleteItem_failed [of net kind ident a]
    deleteItem_reload_unreadable [of net kind ident r a]
    handleContactSubmit_failed [of net s]
  by blast

theorem detected_failures_handled_witness:
  "unreadable (net_down GET_projects)
   \<and> App_fetchData net_down App_initial =
       (App_initial, App_fetchData_issued @ [ConsoleError ''Error fetching data:''])
   \<and> unreadable (net_down GET_settings)
   \<and> AdminPanel_fetchData net_down AdminPanel_initial =
       (AdminPanel_initial\<lparr>adminMessage := ''Error loading data'', loading := False\<rparr>,
        [Fetch GET_settings, Fetch GET_projects, Fetch GET_blog, Fetch GET_testimonials,
         ConsoleError ''Error fetching data:''])
   \<and> request_failed (net_error 500 (PUT_settings sample_settings))
   \<and> updateSettings (net_error 500) sample_settings AdminPanel_initial =
       (AdminPanel_initial\<lparr>adminMessage := ''Error updating settings'', loading := False\<rparr>,
        [Fetch (PUT_settings sample_settings), ConsoleError ''Error updating settings:''])
   \<and> request_failed (net_error 500 (DELETE_item ''blog'' ''b1''))
   \<and> deleteItem (net_error 500) True ''blog'' ''b1'' AdminPanel_initial =
       (AdminPanel_initial\<lparr>adminMessage := ''Error deleting '' @ ''blog'', loading := False\<rparr>,
        [Confirm (confirm_text ''blog''), Fetch (DELETE_item ''blog'' ''b1''),
         ConsoleError (''Error deleting '' @ ''blog'' @ '':'')])
   \<and> (net_down(DELETE_item ''blog'' ''b1'' := Resolved \<lparr>status = 204, json_body = None\<rparr>))
        (DELETE_item ''blog'' ''b1'') = Resolved \<lparr>status = 204, json_body = None\<rparr>
   \<and> ok \<lparr>status = 204, json_body = None\<rparr>
   \<and> unreadable
        ((net_down(DELETE_item ''blog'' ''b1'' := Resolved \<lparr>status = 204, json_body = None\<rparr>))
           GET_settings)
   \<and> deleteItem
        (net_down(DELETE_item ''blog'' ''b1'' := Resolved \<lparr>status = 204, json_body = None\<rparr>))
        True ''blog'' ''b1'' AdminPanel_initial =
       (AdminPanel_initial\<lparr>adminMessage := ''Error loading data'', loading := False\<rparr>,
        [Confirm (confirm_text ''blog''), Fetch (DELETE_item ''blog'' ''b1''),
         SetTimeout_setMessage [] 3000,
         Fetch GET_settings, Fetch GET_projects, Fetch GET_blog, Fetch GET_testimonials,
         ConsoleError ''Error fetching data:''])
   \<and> request_failed (net_down (POST_contact (contactForm App_initial)))
   \<and> handleContactSubmit net_down App_initial =
       (App_initial\<lparr>isSubmitting := False\<rparr>,
        [Fetch (POST_contact (contactForm App_initial)),
         ConsoleError ''Error sending message:'',
         Alert ''Failed to send message. Please try again.''])"
proof -
  let ?n = "net_down(DELETE_item ''blog'' ''b1'' := Resolved \<lparr>status = 204, json_body = None\<rparr>)"
  let ?k = "\<lparr>status = 204, json_body = None\<rparr>"
  have down: "unreadable (net_down GET_projects)" "unreadable (net_down GET_settings)"
    "request_failed (net_down (POST_contact (contactForm App_initial)))"
    by (simp_all add: net_down_def)
  have err: "request_failed (net_error 500 (PUT_settings sample_settings))"
    "request_failed (net_error 500 (DELETE_item ''blog'' ''b1''))"
    by (simp_all add: net_error_def reply_def ok_def)
  have gone: "?n (DELETE_item ''blog'' ''b1'') = Resolved ?k" "ok ?k"
    "unreadable (?n GET_settings)"
    by (simp_all add: ok_def net_down_def DELETE_item_def GET_settings_def)
  from detected_failures_handled
      [of net_down App_initial AdminPanel_initial sample_settings "''blog''" "''b1''" ?k]
    detected_failures_handled
      [of "net_error 500" App_initial AdminPanel_initial sample_settings "''blog''" "''b1''" ?k]
    detected_failures_handled
      [of ?n App_initial AdminPanel_initial sample_settings "''blog''" "''b1''" ?k]
    down err gone
  show ?thesis by blast
qed

end
